theory Spec2Isabelle
  imports Complex_Main
begin

section \<open>Numbers\<close>

text \<open>
  The source computes on JavaScript numbers. The inputs are taken to be finite and
  every operation on finite values is taken to be exact: a finite number is a
  \<open>real\<close>, and neither rounding nor overflow is modelled. What the source can
  still produce outside the finite range is kept: a division by zero (the percentage
  when the volume is zero) and the minimum and maximum of an empty argument list
  (\<open>Infinity\<close> and \<open>-Infinity\<close>). Those values are of type \<open>jsnum\<close>.
\<close>

datatype jsnum = Fin real | PosInf | NegInf | NaN

text \<open>
  \<open>x / y\<close>. A zero divisor is read as \<open>+0\<close> (signed zeros are not modelled);
  \<open>0 / 0\<close> is \<open>NaN\<close> whatever the sign. The function below divides a clamped
  volume by the total volume: the dividend is 0 whenever the divisor is (lemma
  \<open>percentage_at_zero_volume\<close>), so the sign of a zero never decides a result.
\<close>

definition js_div :: "real \<Rightarrow> real \<Rightarrow> jsnum" where
  "js_div x y =
     (if y \<noteq> 0 then Fin (x / y)
      else if x = 0 then NaN
      else if 0 < x then PosInf else NegInf)"

fun js_mul :: "jsnum \<Rightarrow> jsnum \<Rightarrow> jsnum" where
  "js_mul NaN _ = NaN"
| "js_mul _ NaN = NaN"
| "js_mul (Fin a) (Fin b) = Fin (a * b)"
| "js_mul (Fin a) PosInf = (if a = 0 then NaN else if 0 < a then PosInf else NegInf)"
| "js_mul (Fin a) NegInf = (if a = 0 then NaN else if 0 < a then NegInf else PosInf)"
| "js_mul PosInf (Fin b) = (if b = 0 then NaN else if 0 < b then PosInf else NegInf)"
| "js_mul NegInf (Fin b) = (if b = 0 then NaN else if 0 < b then NegInf else PosInf)"
| "js_mul PosInf PosInf = PosInf"
| "js_mul PosInf NegInf = NegInf"
| "js_mul NegInf PosInf = NegInf"
| "js_mul NegInf NegInf = PosInf"

fun js_add :: "jsnum \<Rightarrow> jsnum \<Rightarrow> jsnum" where
  "js_add NaN _ = NaN"
| "js_add _ NaN = NaN"
| "js_add (Fin a) (Fin b) = Fin (a + b)"
| "js_add (Fin a) PosInf = PosInf"
| "js_add (Fin a) NegInf = NegInf"
| "js_add PosInf (Fin b) = PosInf"
| "js_add NegInf (Fin b) = NegInf"
| "js_add PosInf PosInf = PosInf"
| "js_add PosInf NegInf = NaN"
| "js_add NegInf PosInf = NaN"
| "js_add NegInf NegInf = NegInf"

text \<open>\<open>x < y\<close>: false as soon as one side is \<open>NaN\<close>.\<close>

fun js_lt :: "jsnum \<Rightarrow> jsnum \<Rightarrow> bool" where
  "js_lt NaN _ = False"
| "js_lt _ NaN = False"
| "js_lt (Fin a) (Fin b) = (a < b)"
| "js_lt (Fin a) PosInf = True"
| "js_lt (Fin a) NegInf = False"
| "js_lt PosInf _ = False"
| "js_lt NegInf NegInf = False"
| "js_lt NegInf _ = True"

definition js_gt :: "jsnum \<Rightarrow> jsnum \<Rightarrow> bool" where
  "js_gt x y = js_lt y x"

text \<open>
  \<open>Math.min(...xs)\<close> and \<open>Math.max(...xs)\<close> on finite arguments: with no argument
  they are \<open>Infinity\<close> and \<open>-Infinity\<close>.
\<close>

fun Math_min :: "real list \<Rightarrow> jsnum" where
  "Math_min [] = PosInf"
| "Math_min (x # xs) = (case Math_min xs of Fin y \<Rightarrow> Fin (min x y) | _ \<Rightarrow> Fin x)"

fun Math_max :: "real list \<Rightarrow> jsnum" where
  "Math_max [] = NegInf"
| "Math_max (x # xs) = (case Math_max xs of Fin y \<Rightarrow> Fin (max x y) | _ \<Rightarrow> Fin x)"

section \<open>Data model (types.ts)\<close>

record Material =
  id_str :: string
  name :: string
  density :: real
  priority :: real

record Dimensions =
  width :: real
  depth :: real
  height :: real

record MaterialAllocation =
  material :: Material
  volume :: real
  weight :: real
  percentage :: jsnum

text \<open>
  The message of the source is one of four texts, built from material names and from
  numbers printed with one decimal. The model keeps which text it is and the values
  that go into it, not the characters:
  \<^item> \<open>FrameMessage\<close>: the target weight is lower than or equal to the frame weight;
  \<^item> \<open>PairMessage n1 n2\<close>: a solution combining the materials named \<open>n1\<close> and \<open>n2\<close>;
  \<^item> \<open>SingleMessage n\<close>: a solution with 100% of the material named \<open>n\<close>;
  \<^item> \<open>FailMessage low high\<close>: the target cannot be reached; \<open>low\<close> is the appended
    "too low" part (the net weight and the minimum), \<open>high\<close> the appended "too high"
    part (the net weight and the maximum), each present when its test holds.
\<close>

datatype message =
    FrameMessage
  | PairMessage string string
  | SingleMessage string
  | FailMessage "(real \<times> jsnum) option" "(real \<times> jsnum) option"

record CalculationResult =
  totalVolume :: real
  netTargetWeight :: real
  materials :: "MaterialAllocation list"
  isFeasible :: bool
  message :: message

section \<open>Arrays in a store\<close>

text \<open>
  The materials argument is a reference to a mutable array, which the function copies
  and whose copy it sorts in place. The store maps an address to the contents of the
  array there; addresses from \<open>next_addr\<close> on are free. Material objects are never
  written by the function, so the arrays hold them as values.

  The store also carries \<open>max_args\<close>, the largest number of arguments the engine
  running the function accepts in one call. The language sets no such number; each
  engine has one (about 130000 in V8, where it follows from the stack size).
\<close>

record store =
  arrays :: "nat \<Rightarrow> Material list"
  next_addr :: nat
  max_args :: nat

text \<open>\<open>[...xs]\<close>: a new array with the elements of the array at \<open>a\<close>.\<close>

definition array_copy :: "nat \<Rightarrow> store \<Rightarrow> nat \<times> store" where
  "array_copy a s =
     (next_addr s,
      s\<lparr>arrays := (arrays s)(next_addr s := arrays s a), next_addr := Suc (next_addr s)\<rparr>)"

text \<open>
  \<open>xs.sort((a, b) => a.priority - b.priority)\<close>: sorts the array at \<open>a\<close> in place,
  ascending by priority, elements of equal priority keeping their order.
\<close>

definition array_sort :: "nat \<Rightarrow> store \<Rightarrow> store" where
  "array_sort a s = s\<lparr>arrays := (arrays s)(a := sort_key priority (arrays s a))\<rparr>"

text \<open>
  \<open>xs[i]\<close>: \<open>undefined\<close> out of range, and reading a property of \<open>undefined\<close>
  throws a \<open>TypeError\<close>.
\<close>

datatype error = TypeError | RangeError

definition js_index :: "'a list \<Rightarrow> nat \<Rightarrow> 'a option" where
  "js_index xs i = (if i < length xs then Some (xs ! i) else None)"

section \<open>calculateCounterweight (utils/calculator)\<close>

text \<open>The result returned for an accepted pair, with the volumes already clamped.\<close>

definition pair_result ::
  "real \<Rightarrow> real \<Rightarrow> Material \<Rightarrow> Material \<Rightarrow> real \<Rightarrow> real \<Rightarrow> CalculationResult" where
  "pair_result volM3 netWeight m1 m2 actualV1 actualV2 =
     \<lparr>totalVolume = volM3,
      netTargetWeight = netWeight,
      materials =
        [\<lparr>material = m1, volume = actualV1, weight = actualV1 * density m1,
          percentage = js_mul (js_div actualV1 volM3) (Fin 100)\<rparr>,
         \<lparr>material = m2, volume = actualV2, weight = actualV2 * density m2,
          percentage = js_mul (js_div actualV2 volM3) (Fin 100)\<rparr>],
      isFeasible = True,
      message = PairMessage (name m1) (name m2)\<rparr>"

text \<open>
  The first loop, from index \<open>i\<close> on: \<open>None\<close> when it ends without returning.
\<close>

function pair_loop ::
  "real \<Rightarrow> real \<Rightarrow> Material list \<Rightarrow> nat \<Rightarrow> (error + CalculationResult) option" where
  "pair_loop volM3 netWeight sortedMaterials i =
     (if int i < int (length sortedMaterials) - 1 then
        (case js_index sortedMaterials i of
           None \<Rightarrow> Some (Inl TypeError)
         | Some m1 \<Rightarrow>
        (case js_index sortedMaterials (i + 1) of
           None \<Rightarrow> Some (Inl TypeError)
         | Some m2 \<Rightarrow>
             let d1 = density m1; d2 = density m2 in
             if d1 = d2 then pair_loop volM3 netWeight sortedMaterials (i + 1)
             else
               let v1 = (netWeight - volM3 * d2) / (d1 - d2);
                   v2 = volM3 - v1
               in
                 if v1 \<ge> - (1 / 1000000) \<and> v2 \<ge> - (1 / 1000000) \<and> v1 \<le> volM3 + 1 / 1000000
                 then
                   let actualV1 = max 0 (min volM3 v1);
                       actualV2 = max 0 (min volM3 v2)
                   in Some (Inr (pair_result volM3 netWeight m1 m2 actualV1 actualV2))
                 else pair_loop volM3 netWeight sortedMaterials (i + 1)))
      else None)"
  by pat_completeness auto
termination
  by (relation "measure (\<lambda>(volM3, netWeight, sortedMaterials, i). length sortedMaterials - i)")
     auto

text \<open>The second loop (\<open>for (const m of sortedMaterials)\<close>).\<close>

fun single_loop :: "real \<Rightarrow> real \<Rightarrow> Material list \<Rightarrow> CalculationResult option" where
  "single_loop volM3 netWeight [] = None"
| "single_loop volM3 netWeight (m # ms) =
     (let theoreticalWeight = volM3 * density m in
      if \<bar>theoreticalWeight - netWeight\<bar> < 1 / 10 then
        Some \<lparr>totalVolume = volM3,
              netTargetWeight = netWeight,
              materials =
                [\<lparr>material = m, volume = volM3, weight = theoreticalWeight,
                  percentage = Fin 100\<rparr>],
              isFeasible = True,
              message = SingleMessage (name m)\<rparr>
      else single_loop volM3 netWeight ms)"

text \<open>
  \<open>f(...xs)\<close>: the elements of \<open>xs\<close> become the arguments of one call. With more
  elements than the engine accepts as arguments the call throws a \<open>RangeError\<close>.
\<close>

definition spread_call :: "nat \<Rightarrow> ('a list \<Rightarrow> 'b) \<Rightarrow> 'a list \<Rightarrow> error + 'b" where
  "spread_call cap f xs = (if cap < length xs then Inl RangeError else Inr (f xs))"

text \<open>
  The end of the function: too heavy or too light. The minimum, then the maximum, are
  taken by spreading the densities into a call.
\<close>

definition diagnose :: "nat \<Rightarrow> real \<Rightarrow> real \<Rightarrow> Material list \<Rightarrow> error + CalculationResult" where
  "diagnose cap volM3 netWeight ms =
     (case spread_call cap Math_min (map density ms) of
        Inl e \<Rightarrow> Inl e
      | Inr minDensity \<Rightarrow>
     (case spread_call cap Math_max (map density ms) of
        Inl e \<Rightarrow> Inl e
      | Inr maxDensity \<Rightarrow>
          let minWeight = js_mul (Fin volM3) minDensity;
              maxWeight = js_mul (Fin volM3) maxDensity
          in Inr \<lparr>totalVolume = volM3,
                  netTargetWeight = netWeight,
                  materials = [],
                  isFeasible = False,
                  message =
                    FailMessage
                      (if js_lt (Fin netWeight) minWeight
                       then Some (netWeight, minWeight) else None)
                      (if js_gt (Fin netWeight) maxWeight
                       then Some (netWeight, maxWeight) else None)\<rparr>))"

text \<open>
  The function itself. \<open>mref\<close> is the address of the materials array; the store is
  returned as the call leaves it.
\<close>

definition calculateCounterweight ::
  "Dimensions \<Rightarrow> real \<Rightarrow> real \<Rightarrow> nat \<Rightarrow> store \<Rightarrow> (error + CalculationResult) \<times> store" where
  "calculateCounterweight dimensions targetTotalWeight frameWeight mref s =
     (let volM3 = (width dimensions / 1000) * (depth dimensions / 1000)
                    * (height dimensions / 1000);
          netWeight = targetTotalWeight - frameWeight
      in
        if netWeight \<le> 0 then
          (Inr \<lparr>totalVolume = volM3,
                netTargetWeight = netWeight,
                materials = [],
                isFeasible = False,
                message = FrameMessage\<rparr>, s)
        else
          let (sref, s1) = array_copy mref s;
              s2 = array_sort sref s1;
              sortedMaterials = arrays s2 sref
          in
            (case pair_loop volM3 netWeight sortedMaterials 0 of
               Some r \<Rightarrow> (r, s2)
             | None \<Rightarrow>
                 (case single_loop volM3 netWeight sortedMaterials of
                    Some r \<Rightarrow> (Inr r, s2)
                  | None \<Rightarrow>
                      (diagnose (max_args s2) volM3 netWeight (arrays s2 mref), s2))))"


section \<open>The parts of the loop body, named\<close>

text \<open>
  The statements below speak of one pass through the body of the first loop. These
  definitions name its parts: the volume \<open>v1\<close> it computes for a pair, the test under
  which it returns (the densities differ and the three comparisons hold), and what it
  returns then. \<open>volume_of\<close> is the volume of step 1 and \<open>single_answer\<close> what the
  second loop returns for a material.
\<close>

definition volume_of :: "Dimensions \<Rightarrow> real" where
  "volume_of dimensions =
     (width dimensions / 1000) * (depth dimensions / 1000) * (height dimensions / 1000)"

definition pair_v1 :: "real \<Rightarrow> real \<Rightarrow> Material \<Rightarrow> Material \<Rightarrow> real" where
  "pair_v1 volM3 netWeight m1 m2 =
     (netWeight - volM3 * density m2) / (density m1 - density m2)"

definition pair_accepted :: "real \<Rightarrow> real \<Rightarrow> Material \<Rightarrow> Material \<Rightarrow> bool" where
  "pair_accepted volM3 netWeight m1 m2 =
     (density m1 \<noteq> density m2 \<and>
      pair_v1 volM3 netWeight m1 m2 \<ge> - (1 / 1000000) \<and>
      volM3 - pair_v1 volM3 netWeight m1 m2 \<ge> - (1 / 1000000) \<and>
      pair_v1 volM3 netWeight m1 m2 \<le> volM3 + 1 / 1000000)"

definition pair_answer :: "real \<Rightarrow> real \<Rightarrow> Material \<Rightarrow> Material \<Rightarrow> CalculationResult" where
  "pair_answer volM3 netWeight m1 m2 =
     pair_result volM3 netWeight m1 m2
       (max 0 (min volM3 (pair_v1 volM3 netWeight m1 m2)))
       (max 0 (min volM3 (volM3 - pair_v1 volM3 netWeight m1 m2)))"

definition single_answer :: "real \<Rightarrow> real \<Rightarrow> Material \<Rightarrow> CalculationResult" where
  "single_answer volM3 netWeight m =
     \<lparr>totalVolume = volM3, netTargetWeight = netWeight,
      materials = [\<lparr>material = m, volume = volM3, weight = volM3 * density m,
                    percentage = Fin 100\<rparr>],
      isFeasible = True, message = SingleMessage (name m)\<rparr>"

text \<open>
  The sum of a list of numbers, added from the left starting at 0, and the test that a
  number is finite and within \<open>tol\<close> of \<open>c\<close>.
\<close>

definition js_sum :: "jsnum list \<Rightarrow> jsnum" where
  "js_sum xs = foldl js_add (Fin 0) xs"

definition js_near :: "jsnum \<Rightarrow> real \<Rightarrow> real \<Rightarrow> bool" where
  "js_near x c tol = (case x of Fin r \<Rightarrow> \<bar>r - c\<bar> \<le> tol | _ \<Rightarrow> False)"

section \<open>Example inputs\<close>

text \<open>
  The initial state of the form in App.tsx: the two default materials, the default
  dimensions (target weight 780, frame weight 79), with the materials array at
  address 0. The engine of every example accepts 130000 arguments in a call.
\<close>

definition beton :: Material where
  "beton = \<lparr>id_str = ''1'', name = ''Beton'', density = 2400, priority = 1\<rparr>"

definition ocel :: Material where
  "ocel = \<lparr>id_str = ''2'', name = ''Ocel'', density = 7850, priority = 2\<rparr>"

definition default_dims :: Dimensions where
  "default_dims = \<lparr>width = 600, depth = 100, height = 1800\<rparr>"

definition default_store :: store where
  "default_store =
     \<lparr>arrays = (\<lambda>_. [])(0 := [beton, ocel]), next_addr = 1, max_args = 130000\<rparr>"

text \<open>The same form with the width field emptied, which the form reads as 0.\<close>

definition zero_width_dims :: Dimensions where
  "zero_width_dims = \<lparr>width = 0, depth = 100, height = 1800\<rparr>"

text \<open>
  A negative width, which the form accepts as typed: the volume is minus half a
  millionth of a cubic metre.
\<close>

definition negative_dims :: Dimensions where
  "negative_dims = \<lparr>width = - 1, depth = 1, height = 500\<rparr>"

text \<open>
  A cavity of one cubic metre, and three materials of densities 1000, 2000 and 4000
  held in the array out of priority order.
\<close>

definition cube_dims :: Dimensions where
  "cube_dims = \<lparr>width = 1000, depth = 1000, height = 1000\<rparr>"

definition mat_a :: Material where
  "mat_a = \<lparr>id_str = ''a'', name = ''A'', density = 1000, priority = 1\<rparr>"

definition mat_b :: Material where
  "mat_b = \<lparr>id_str = ''b'', name = ''B'', density = 2000, priority = 2\<rparr>"

definition mat_c :: Material where
  "mat_c = \<lparr>id_str = ''c'', name = ''C'', density = 4000, priority = 3\<rparr>"

definition three_store :: store where
  "three_store =
     \<lparr>arrays = (\<lambda>_. [])(0 := [mat_c, mat_a, mat_b]), next_addr = 1,
      max_args = 130000\<rparr>"

text \<open>Three materials of which the first two, in priority order, have the same density.\<close>

definition mat_x :: Material where
  "mat_x = \<lparr>id_str = ''x'', name = ''X'', density = 1000, priority = 1\<rparr>"

definition mat_y :: Material where
  "mat_y = \<lparr>id_str = ''y'', name = ''Y'', density = 1000, priority = 2\<rparr>"

definition twin_store :: store where
  "twin_store =
     \<lparr>arrays = (\<lambda>_. [])(0 := [mat_x, mat_y, mat_c]), next_addr = 1,
      max_args = 130000\<rparr>"

text \<open>
  Two hundred thousand materials of density 1000, numbered from 1 in priority order,
  each with its number as identity.
\<close>

fun decimal :: "nat \<Rightarrow> string" where
  "decimal n =
     (if n < 10 then [char_of (48 + n)]
      else decimal (n div 10) @ [char_of (48 + n mod 10)])"

definition numbered :: "nat \<Rightarrow> Material" where
  "numbered k =
     \<lparr>id_str = decimal k, name = ''M'' @ decimal k, density = 1000, priority = real k\<rparr>"

definition long_list :: "Material list" where
  "long_list = map numbered [1..<200001]"

definition long_store :: store where
  "long_store =
     \<lparr>arrays = (\<lambda>_. [])(0 := long_list), next_addr = 1, max_args = 130000\<rparr>"

text \<open>An empty materials array.\<close>

definition empty_store :: store where
  "empty_store = \<lparr>arrays = (\<lambda>_. []), next_addr = 1, max_args = 130000\<rparr>"

section \<open>The loops and the function, case by case\<close>

declare pair_loop.simps [simp del]

declare decimal.simps [simp del]

lemma pair_loop_end:
  "\<not> i + 1 < length xs \<Longrightarrow> pair_loop v n xs i = None"
  by (subst pair_loop.simps) auto

lemma pair_loop_step:
  "i + 1 < length xs \<Longrightarrow>
   pair_loop v n xs i =
     (if pair_accepted v n (xs ! i) (xs ! (i + 1))
      then Some (Inr (pair_answer v n (xs ! i) (xs ! (i + 1))))
      else pair_loop v n xs (i + 1))"
  by (subst pair_loop.simps)
     (auto simp: js_index_def Let_def pair_accepted_def pair_answer_def pair_v1_def)

lemma pair_loop_Some:
  "pair_loop v n xs i = Some r \<Longrightarrow>
   \<exists>j. i \<le> j \<and> j + 1 < length xs \<and> pair_accepted v n (xs ! j) (xs ! (j + 1)) \<and>
       r = Inr (pair_answer v n (xs ! j) (xs ! (j + 1)))"
proof (induction "length xs - i" arbitrary: i rule: less_induct)
  case less
  show ?case
  proof (cases "i + 1 < length xs")
    case False
    with less.prems show ?thesis by (simp add: pair_loop_end)
  next
    case True
    show ?thesis
    proof (cases "pair_accepted v n (xs ! i) (xs ! (i + 1))")
      case acc: True
      with True less.prems have "r = Inr (pair_answer v n (xs ! i) (xs ! (i + 1)))"
        by (simp add: pair_loop_step)
      with True acc show ?thesis by blast
    next
      case rej: False
      with True less.prems have "pair_loop v n xs (i + 1) = Some r"
        by (simp add: pair_loop_step)
      moreover from True have "length xs - (i + 1) < length xs - i" by arith
      ultimately obtain j where "i + 1 \<le> j" "j + 1 < length xs"
        "pair_accepted v n (xs ! j) (xs ! (j + 1))"
        "r = Inr (pair_answer v n (xs ! j) (xs ! (j + 1)))"
        using less.hyps [of "i + 1"] by blast
      then show ?thesis by (intro exI [of _ j]) simp
    qed
  qed
qed

text \<open>The first accepted pair from \<open>k\<close> on is the one returned.\<close>

lemma pair_loop_first:
  "k \<le> i \<Longrightarrow> i + 1 < length xs \<Longrightarrow> pair_accepted v n (xs ! i) (xs ! (i + 1)) \<Longrightarrow>
   (\<And>j. k \<le> j \<Longrightarrow> j < i \<Longrightarrow> \<not> pair_accepted v n (xs ! j) (xs ! (j + 1))) \<Longrightarrow>
   pair_loop v n xs k = Some (Inr (pair_answer v n (xs ! i) (xs ! (i + 1))))"
proof (induction "i - k" arbitrary: k)
  case 0
  then have "k = i" by simp
  with 0 show ?case by (simp add: pair_loop_step)
next
  case (Suc d)
  then have lt: "k < i" by arith
  with Suc.prems have "k + 1 < length xs" and "\<not> pair_accepted v n (xs ! k) (xs ! (k + 1))"
    by auto
  then have "pair_loop v n xs k = pair_loop v n xs (k + 1)"
    by (simp add: pair_loop_step)
  moreover have "pair_loop v n xs (k + 1) = Some (Inr (pair_answer v n (xs ! i) (xs ! (i + 1))))"
  proof (rule Suc.hyps(1))
    show "d = i - (k + 1)" using Suc.hyps(2) by arith
    show "k + 1 \<le> i" using lt by arith
    show "i + 1 < length xs" by (rule Suc.prems(2))
    show "pair_accepted v n (xs ! i) (xs ! (i + 1))" by (rule Suc.prems(3))
    show "\<not> pair_accepted v n (xs ! j) (xs ! (j + 1))" if "k + 1 \<le> j" "j < i" for j
      using that Suc.prems(4) [of j] by simp
  qed
  ultimately show ?case by simp
qed

lemma single_loop_Some:
  "single_loop v n xs = Some r \<Longrightarrow>
   \<exists>m \<in> set xs. \<bar>v * density m - n\<bar> < 1 / 10 \<and> r = single_answer v n m"
  by (induction xs) (auto simp: Let_def single_answer_def split: if_splits)

lemma calc_frame:
  "t - f \<le> 0 \<Longrightarrow>
   calculateCounterweight d t f mref s =
     (Inr \<lparr>totalVolume = volume_of d, netTargetWeight = t - f, materials = [],
           isFeasible = False, message = FrameMessage\<rparr>, s)"
  by (simp add: calculateCounterweight_def volume_of_def Let_def)

lemma calc_search:
  "0 < t - f \<Longrightarrow>
   fst (calculateCounterweight d t f mref s) =
     (case pair_loop (volume_of d) (t - f) (sort_key priority (arrays s mref)) 0 of
        Some r \<Rightarrow> r
      | None \<Rightarrow>
         (case single_loop (volume_of d) (t - f) (sort_key priority (arrays s mref)) of
            Some r \<Rightarrow> Inr r
          | None \<Rightarrow> diagnose (max_args s) (volume_of d) (t - f)
               (arrays (array_sort (next_addr s) (snd (array_copy mref s))) mref)))"
  by (simp add: calculateCounterweight_def volume_of_def Let_def array_copy_def array_sort_def
      split: option.splits)

text \<open>The array the diagnosis reads has the length of the array passed in.\<close>

lemma diagnosed_length:
  "length (arrays (array_sort (next_addr s) (snd (array_copy mref s))) mref)
     = length (arrays s mref)"
  by (simp add: array_copy_def array_sort_def)

lemma diagnose_Inr:
  "diagnose cap v n ms = Inr r \<Longrightarrow> \<not> isFeasible r \<and> materials r = []"
  by (auto simp: diagnose_def spread_call_def Let_def split: if_splits)

lemma diagnose_Inl:
  "diagnose cap v n ms = Inl e \<Longrightarrow> e = RangeError \<and> cap < length ms"
  by (auto simp: diagnose_def spread_call_def Let_def split: if_splits)

lemma diagnose_short:
  "length ms \<le> cap \<Longrightarrow> \<exists>r. diagnose cap v n ms = Inr r"
  by (simp add: diagnose_def spread_call_def Let_def)

lemma diagnose_long:
  "cap < length ms \<Longrightarrow> diagnose cap v n ms = Inl RangeError"
  by (simp add: diagnose_def spread_call_def)

text \<open>The four ways the function ends.\<close>

lemma calc_cases:
  obtains
    (frame) "t - f \<le> 0"
      "fst (calculateCounterweight d t f mref s) =
         Inr \<lparr>totalVolume = volume_of d, netTargetWeight = t - f, materials = [],
              isFeasible = False, message = FrameMessage\<rparr>"
  | (pair) j where "0 < t - f" "j + 1 < length (sort_key priority (arrays s mref))"
      "pair_accepted (volume_of d) (t - f) (sort_key priority (arrays s mref) ! j)
         (sort_key priority (arrays s mref) ! (j + 1))"
      "fst (calculateCounterweight d t f mref s) =
         Inr (pair_answer (volume_of d) (t - f) (sort_key priority (arrays s mref) ! j)
               (sort_key priority (arrays s mref) ! (j + 1)))"
  | (single) m where "0 < t - f" "m \<in> set (sort_key priority (arrays s mref))"
      "\<bar>volume_of d * density m - (t - f)\<bar> < 1 / 10"
      "fst (calculateCounterweight d t f mref s) = Inr (single_answer (volume_of d) (t - f) m)"
  | (diagnosis) ms where "0 < t - f" "length ms = length (arrays s mref)"
      "pair_loop (volume_of d) (t - f) (sort_key priority (arrays s mref)) 0 = None"
      "single_loop (volume_of d) (t - f) (sort_key priority (arrays s mref)) = None"
      "fst (calculateCounterweight d t f mref s)
         = diagnose (max_args s) (volume_of d) (t - f) ms"
proof (cases "t - f \<le> 0")
  case True
  then show ?thesis by (intro frame) (simp_all add: calc_frame)
next
  case False
  then have pos: "0 < t - f" by simp
  let ?xs = "sort_key priority (arrays s mref)"
  show ?thesis
  proof (cases "pair_loop (volume_of d) (t - f) ?xs 0")
    case (Some p)
    from pair_loop_Some [OF Some] obtain j where j: "j + 1 < length ?xs"
      "pair_accepted (volume_of d) (t - f) (?xs ! j) (?xs ! (j + 1))"
      "p = Inr (pair_answer (volume_of d) (t - f) (?xs ! j) (?xs ! (j + 1)))"
      by blast
    from Some j(3) pos have "fst (calculateCounterweight d t f mref s) =
        Inr (pair_answer (volume_of d) (t - f) (?xs ! j) (?xs ! (j + 1)))"
      by (simp add: calc_search)
    with pos j(1,2) show ?thesis by (rule pair)
  next
    case None
    show ?thesis
    proof (cases "single_loop (volume_of d) (t - f) ?xs")
      case (Some q)
      from single_loop_Some [OF Some] obtain m where m: "m \<in> set ?xs"
        "\<bar>volume_of d * density m - (t - f)\<bar> < 1 / 10"
        "q = single_answer (volume_of d) (t - f) m"
        by blast
      from None Some m(3) pos have "fst (calculateCounterweight d t f mref s) =
          Inr (single_answer (volume_of d) (t - f) m)"
        by (simp add: calc_search)
      with pos m(1,2) show ?thesis by (rule single)
    next
      case none2: None
      from None none2 pos have "fst (calculateCounterweight d t f mref s) =
          diagnose (max_args s) (volume_of d) (t - f)
            (arrays (array_sort (next_addr s) (snd (array_copy mref s))) mref)"
        by (simp add: calc_search)
      with pos diagnosed_length None none2 show ?thesis by (rule diagnosis)
    qed
  qed
qed

lemma calc_feasible_cases:
  assumes run: "fst (calculateCounterweight d t f mref s) = Inr r" and feas: "isFeasible r"
  shows "0 < t - f \<and>
     ((\<exists>j. j + 1 < length (sort_key priority (arrays s mref)) \<and>
          pair_accepted (volume_of d) (t - f) (sort_key priority (arrays s mref) ! j)
             (sort_key priority (arrays s mref) ! (j + 1)) \<and>
          r = pair_answer (volume_of d) (t - f) (sort_key priority (arrays s mref) ! j)
             (sort_key priority (arrays s mref) ! (j + 1))) \<or>
      (\<exists>m \<in> set (sort_key priority (arrays s mref)).
          \<bar>volume_of d * density m - (t - f)\<bar> < 1 / 10 \<and>
          r = single_answer (volume_of d) (t - f) m))"
proof (cases rule: calc_cases [where d = d and t = t and f = f and mref = mref and s = s])
  case frame
  with run feas show ?thesis by auto
next
  case (pair j)
  with run show ?thesis by auto
next
  case (single m)
  with run show ?thesis by auto
next
  case (diagnosis ms)
  with run have "diagnose (max_args s) (volume_of d) (t - f) ms = Inr r" by simp
  from diagnose_Inr [OF this] feas show ?thesis by simp
qed

text \<open>A returned record is feasible exactly when it has allocation entries.\<close>

lemma calc_result_shape:
  assumes run: "fst (calculateCounterweight d t f mref s) = Inr r"
  shows "isFeasible r \<longleftrightarrow> materials r \<noteq> []"
proof (cases rule: calc_cases [where d = d and t = t and f = f and mref = mref and s = s])
  case frame
  with run show ?thesis by auto
next
  case (pair j)
  with run show ?thesis by (auto simp: pair_answer_def pair_result_def)
next
  case (single m)
  with run show ?thesis by (auto simp: single_answer_def)
next
  case (diagnosis ms)
  with run have "diagnose (max_args s) (volume_of d) (t - f) ms = Inr r" by simp
  from diagnose_Inr [OF this] show ?thesis by simp
qed

text \<open>An error is the one of the spread call, on the diagnosis, for a long array.\<close>

lemma calc_error:
  assumes run: "fst (calculateCounterweight d t f mref s) = Inl e"
  shows "e = RangeError \<and> max_args s < length (arrays s mref) \<and> 0 < t - f \<and>
    pair_loop (volume_of d) (t - f) (sort_key priority (arrays s mref)) 0 = None \<and>
    single_loop (volume_of d) (t - f) (sort_key priority (arrays s mref)) = None"
proof (cases rule: calc_cases [where d = d and t = t and f = f and mref = mref and s = s])
  case (diagnosis ms)
  with run have "diagnose (max_args s) (volume_of d) (t - f) ms = Inl e" by simp
  from diagnose_Inl [OF this] diagnosis show ?thesis by simp
qed (use run in simp_all)

lemma calc_total:
  assumes "length (arrays s mref) \<le> max_args s"
  shows "\<exists>r. fst (calculateCounterweight d t f mref s) = Inr r"
proof (cases "fst (calculateCounterweight d t f mref s)")
  case (Inl e)
  from calc_error [OF this] assms show ?thesis by simp
next
  case (Inr r)
  then show ?thesis by simp
qed

lemma clamp_sum:
  fixes vol v :: real
  shows "0 \<le> vol \<Longrightarrow> max 0 (min vol v) + max 0 (min vol (vol - v)) = vol"
  by (simp add: max_def min_def)

lemma pair_answer_fields:
  "isFeasible (pair_answer v n m1 m2)"
  "totalVolume (pair_answer v n m1 m2) = v"
  "netTargetWeight (pair_answer v n m1 m2) = n"
  "map material (materials (pair_answer v n m1 m2)) = [m1, m2]"
  "map volume (materials (pair_answer v n m1 m2)) =
     [max 0 (min v (pair_v1 v n m1 m2)), max 0 (min v (v - pair_v1 v n m1 m2))]"
  "map weight (materials (pair_answer v n m1 m2)) =
     [max 0 (min v (pair_v1 v n m1 m2)) * density m1,
      max 0 (min v (v - pair_v1 v n m1 m2)) * density m2]"
  by (simp_all add: pair_answer_def pair_result_def)

lemma pair_answer_percentages:
  "0 < v \<Longrightarrow>
   map percentage (materials (pair_answer v n m1 m2)) =
     [Fin (max 0 (min v (pair_v1 v n m1 m2)) / v * 100),
      Fin (max 0 (min v (v - pair_v1 v n m1 m2)) / v * 100)]"
  by (simp add: pair_answer_def pair_result_def js_div_def)

lemma single_answer_fields:
  "isFeasible (single_answer v n m)"
  "totalVolume (single_answer v n m) = v"
  "netTargetWeight (single_answer v n m) = n"
  "map material (materials (single_answer v n m)) = [m]"
  "map volume (materials (single_answer v n m)) = [v]"
  "map weight (materials (single_answer v n m)) = [v * density m]"
  "map percentage (materials (single_answer v n m)) = [Fin 100]"
  by (simp_all add: single_answer_def)

lemma percentage_at_zero_volume:
  "js_mul (js_div (max 0 (min 0 v)) 0) (Fin 100) = NaN"
  by (simp add: js_div_def)

section \<open>The example inputs, run\<close>

lemmas run_simps =
  calculateCounterweight_def array_copy_def array_sort_def pair_loop_step pair_loop_end
  pair_accepted_def pair_answer_def pair_v1_def pair_result_def js_div_def Let_def
  diagnose_def spread_call_def js_gt_def

lemma run_default:
  "fst (calculateCounterweight default_dims 780 79 0 default_store) =
     Inr \<lparr>totalVolume = 27 / 250, netTargetWeight = 701,
          materials =
            [\<lparr>material = beton, volume = 367 / 13625, weight = 35232 / 545,
              percentage = Fin (73400 / 2943)\<rparr>,
             \<lparr>material = ocel, volume = 2209 / 27250, weight = 346813 / 545,
              percentage = Fin (220900 / 2943)\<rparr>],
          isFeasible = True, message = PairMessage ''Beton'' ''Ocel''\<rparr>"
  by (simp add: run_simps default_dims_def default_store_def beton_def ocel_def)

lemma run_zero_width:
  "fst (calculateCounterweight zero_width_dims (1 / 256) 0 0 default_store) =
     Inr \<lparr>totalVolume = 0, netTargetWeight = 1 / 256,
          materials =
            [\<lparr>material = beton, volume = 0, weight = 0, percentage = NaN\<rparr>,
             \<lparr>material = ocel, volume = 0, weight = 0, percentage = NaN\<rparr>],
          isFeasible = True, message = PairMessage ''Beton'' ''Ocel''\<rparr>"
  by (simp add: run_simps zero_width_dims_def default_store_def beton_def ocel_def)

lemma run_three_1000:
  "fst (calculateCounterweight cube_dims 1000 0 0 three_store) =
     Inr \<lparr>totalVolume = 1, netTargetWeight = 1000,
          materials =
            [\<lparr>material = mat_a, volume = 1, weight = 1000, percentage = Fin 100\<rparr>,
             \<lparr>material = mat_b, volume = 0, weight = 0, percentage = Fin 0\<rparr>],
          isFeasible = True, message = PairMessage ''A'' ''B''\<rparr>"
  by (simp add: run_simps cube_dims_def three_store_def mat_a_def mat_b_def mat_c_def)

lemma run_twin:
  "fst (calculateCounterweight cube_dims 2500 0 0 twin_store) =
     Inr \<lparr>totalVolume = 1, netTargetWeight = 2500,
          materials =
            [\<lparr>material = mat_y, volume = 1 / 2, weight = 500, percentage = Fin 50\<rparr>,
             \<lparr>material = mat_c, volume = 1 / 2, weight = 2000, percentage = Fin 50\<rparr>],
          isFeasible = True, message = PairMessage ''Y'' ''C''\<rparr>"
  by (simp add: run_simps cube_dims_def twin_store_def mat_x_def mat_y_def mat_c_def)

lemma run_negative:
  "fst (calculateCounterweight negative_dims (49 / 50000) 0 0 default_store) =
     Inr \<lparr>totalVolume = - (1 / 2000000), netTargetWeight = 49 / 50000,
          materials =
            [\<lparr>material = beton, volume = 0, weight = 0, percentage = Fin 0\<rparr>,
             \<lparr>material = ocel, volume = 0, weight = 0, percentage = Fin 0\<rparr>],
          isFeasible = True, message = PairMessage ''Beton'' ''Ocel''\<rparr>"
  by (simp add: run_simps negative_dims_def default_store_def beton_def ocel_def)

lemma sorted_twin: "sort_key priority (arrays twin_store 0) = [mat_x, mat_y, mat_c]"
  by (simp add: twin_store_def mat_x_def mat_y_def mat_c_def)

lemma sorted_three: "sort_key priority (arrays three_store 0) = [mat_a, mat_b, mat_c]"
  by (simp add: three_store_def mat_a_def mat_b_def mat_c_def)

lemma sorted_by_priority:
  assumes "i + 1 < length (sort_key priority ms)"
  shows "priority (sort_key priority ms ! i) \<le> priority (sort_key priority ms ! (i + 1))"
proof -
  let ?xs = "sort_key priority ms"
  have "sorted (map priority ?xs)" by (rule sorted_sort_key)
  moreover have "i \<le> i + 1" by simp
  moreover from assms have "i + 1 < length (map priority ?xs)" by simp
  ultimately have "map priority ?xs ! i \<le> map priority ?xs ! (i + 1)"
    by (rule sorted_nth_mono)
  with assms show ?thesis by simp
qed

text \<open>The store after the call: untouched on the early return, else with the sorted copy.\<close>

lemma calc_store:
  "snd (calculateCounterweight d t f mref s) =
     (if t - f \<le> 0 then s else array_sort (next_addr s) (snd (array_copy mref s)))"
  by (simp add: calculateCounterweight_def Let_def array_copy_def split: option.splits)

text \<open>Lists on which neither loop returns.\<close>

lemma pair_loop_equal_densities:
  assumes "\<forall>m \<in> set xs. density m = c"
  shows "pair_loop v n xs k = None"
proof (induction "length xs - k" arbitrary: k rule: less_induct)
  case less
  show ?case
  proof (cases "k + 1 < length xs")
    case False
    then show ?thesis by (simp add: pair_loop_end)
  next
    case True
    with assms have "density (xs ! k) = c" "density (xs ! (k + 1)) = c"
      by simp_all
    with True have "pair_loop v n xs k = pair_loop v n xs (k + 1)"
      by (simp add: pair_loop_step pair_accepted_def)
    moreover from True have "length xs - (k + 1) < length xs - k" by arith
    then have "pair_loop v n xs (k + 1) = None" by (rule less.hyps)
    ultimately show ?thesis by simp
  qed
qed

lemma single_loop_no_match:
  "\<forall>m \<in> set xs. \<not> \<bar>v * density m - n\<bar> < 1 / 10 \<Longrightarrow> single_loop v n xs = None"
  by (induction xs) (simp_all add: Let_def)

lemma numbered_fields: "density (numbered k) = 1000" "priority (numbered k) = real k"
  by (simp_all add: numbered_def)

lemma long_list_length: "length long_list = 200000"
  by (simp add: long_list_def del: upt_rec_numeral)

lemma long_list_density: "\<forall>m \<in> set long_list. density m = 1000"
  by (auto simp: long_list_def numbered_fields simp del: upt_rec_numeral)

lemma long_list_sorted: "sort_key priority long_list = long_list"
proof (rule sort_key_id_if_sorted)
  have "map priority long_list = map real [1..<200001]"
    by (simp add: long_list_def numbered_fields del: upt_rec_numeral)
  moreover have "sorted (map real [1..<200001])"
    by (rule sorted_map_mono) (simp_all add: mono_on_def del: upt_rec_numeral)
  ultimately show "sorted (map priority long_list)" by (simp only:)
qed

lemma run_long:
  "fst (calculateCounterweight cube_dims 3000 0 0 long_store) = Inl RangeError"
proof -
  have vol: "volume_of cube_dims = 1" by (simp add: volume_of_def cube_dims_def)
  have xs: "sort_key priority (arrays long_store 0) = long_list"
    by (simp add: long_store_def long_list_sorted)
  have none1: "pair_loop 1 3000 long_list 0 = None"
    using long_list_density by (rule pair_loop_equal_densities)
  have none2: "single_loop 1 3000 long_list = None"
    using long_list_density by (intro single_loop_no_match) simp
  have "max_args long_store
      < length (arrays (array_sort (next_addr long_store) (snd (array_copy 0 long_store))) 0)"
    by (simp only: diagnosed_length) (simp add: long_store_def long_list_length)
  then have "diagnose (max_args long_store) 1 3000
      (arrays (array_sort (next_addr long_store) (snd (array_copy 0 long_store))) 0)
      = Inl RangeError"
    by (rule diagnose_long)
  with none1 none2 show ?thesis
    by (simp add: calc_search [of 3000 0] vol xs)
qed

section \<open>Properties of calculateCounterweight\<close>

text \<open>
  C3, as stated, fails. With the width at 0 the volume is 0: for a net weight of
  1/256 kg the first pair passes the test, both volumes are clamped to 0 and both
  percentages are 0 / 0, not a number. With the width at -1 the volume is negative: the
  result is feasible with both volumes clamped to 0 and both percentages 0, which sum
  to 0.
\<close>

theorem percentages_not_100_at_zero_volume:
  "\<not> isl (fst (calculateCounterweight zero_width_dims (1 / 256) 0 0 default_store)) \<and>
   isFeasible (projr (fst (calculateCounterweight zero_width_dims (1 / 256) 0 0 default_store))) \<and>
   map percentage
     (materials (projr (fst (calculateCounterweight zero_width_dims (1 / 256) 0 0 default_store))))
     = [NaN, NaN] \<and>
   \<not> js_near
     (js_sum (map percentage
        (materials (projr (fst (calculateCounterweight zero_width_dims (1 / 256) 0 0 default_store))))))
     100 (1 / 10000) \<and>
   \<not> isl (fst (calculateCounterweight negative_dims (49 / 50000) 0 0 default_store)) \<and>
   isFeasible (projr (fst (calculateCounterweight negative_dims (49 / 50000) 0 0 default_store))) \<and>
   map percentage
     (materials (projr (fst (calculateCounterweight negative_dims (49 / 50000) 0 0 default_store))))
     = [Fin 0, Fin 0] \<and>
   \<not> js_near
     (js_sum (map percentage
        (materials (projr (fst (calculateCounterweight negative_dims (49 / 50000) 0 0 default_store))))))
     100 (1 / 10000)"
  by (simp add: run_zero_width run_negative js_sum_def js_near_def)

text \<open>
  C3, amended. Whenever the total volume is positive (as it is for positive width, depth
  and height) and the result is feasible, the percentages of the returned allocation
  entries are finite and sum to 100 within 0.0001.
\<close>

theorem percentages_sum_to_100:
  assumes "0 < volume_of d"
    and "fst (calculateCounterweight d t f mref s) = Inr r" and "isFeasible r"
  shows "js_near (js_sum (map percentage (materials r))) 100 (1 / 10000)"
proof -
  let ?xs = "sort_key priority (arrays s mref)"
  from calc_feasible_cases [OF assms(2,3)]
  consider
    (pair) j where "r = pair_answer (volume_of d) (t - f) (?xs ! j) (?xs ! (j + 1))"
  | (single) m where "r = single_answer (volume_of d) (t - f) m"
    by blast
  then show ?thesis
  proof cases
    case pair
    let ?a1 = "max 0 (min (volume_of d) (pair_v1 (volume_of d) (t - f) (?xs ! j) (?xs ! (j + 1))))"
    let ?a2 = "max 0 (min (volume_of d)
                 (volume_of d - pair_v1 (volume_of d) (t - f) (?xs ! j) (?xs ! (j + 1))))"
    from assms(1) have "?a1 + ?a2 = volume_of d" by (intro clamp_sum) simp
    then have "?a1 / volume_of d * 100 + ?a2 / volume_of d * 100 = 100"
      using assms(1) by (simp add: field_simps)
    with pair assms(1) show ?thesis
      by (simp add: pair_answer_percentages js_sum_def js_near_def)
  next
    case single
    then show ?thesis by (simp add: single_answer_fields js_sum_def js_near_def)
  qed
qed

theorem percentages_sum_to_100_witness:
  "0 < volume_of default_dims \<and>
   isFeasible (projr (fst (calculateCounterweight default_dims 780 79 0 default_store))) \<and>
   map percentage
     (materials (projr (fst (calculateCounterweight default_dims 780 79 0 default_store))))
     = [Fin (73400 / 2943), Fin (220900 / 2943)] \<and>
   js_near (js_sum [Fin (73400 / 2943), Fin (220900 / 2943)]) 100 (1 / 10000)"
proof -
  let ?r = "projr (fst (calculateCounterweight default_dims 780 79 0 default_store))"
  have vol: "0 < volume_of default_dims" by (simp add: volume_of_def default_dims_def)
  have run: "fst (calculateCounterweight default_dims 780 79 0 default_store) = Inr ?r"
    by (simp add: run_default)
  have feas: "isFeasible ?r" by (simp add: run_default)
  from percentages_sum_to_100 [OF vol run feas] vol feas show ?thesis
    by (simp add: run_default)
qed

text \<open>
  C4. If the target weight is at most the frame weight, the result is infeasible with an
  empty allocation list and the frame message, whatever the dimensions and the
  materials; the store is returned as it was, so no copy of the materials was made
  and neither loop ran.
\<close>

theorem frame_exceeds_target:
  assumes "targetTotalWeight \<le> frameWeight"
  shows "calculateCounterweight d targetTotalWeight frameWeight mref s =
     (Inr \<lparr>totalVolume = volume_of d, netTargetWeight = targetTotalWeight - frameWeight,
           materials = [], isFeasible = False, message = FrameMessage\<rparr>, s)"
  using assms by (intro calc_frame) simp

theorem frame_exceeds_target_witness:
  "(50 :: real) \<le> 79 \<and>
   calculateCounterweight default_dims 50 79 0 default_store =
     (Inr \<lparr>totalVolume = 27 / 250, netTargetWeight = - 29,
           materials = [], isFeasible = False, message = FrameMessage\<rparr>, default_store)"
proof -
  have le: "(50 :: real) \<le> 79" by simp
  from frame_exceeds_target [OF le, of default_dims 0 default_store] show ?thesis
    by (simp add: volume_of_def default_dims_def)
qed

text \<open>
  C5, as stated, fails. For the default form state the returned volumes and weights are
  not the stated ones (0.0809 cubic metres and 194.2 kg of Beton, 0.0271 cubic metres and
  212.7 kg of Ocel), even read to the nearest 0.001 cubic metres and 1 kg.
\<close>

theorem default_scenario_not_as_stated:
  "\<not> (\<bar>volume (materials (projr (fst (calculateCounterweight default_dims 780 79 0 default_store))) ! 0)
         - 809 / 10000\<bar> \<le> 1 / 1000 \<and>
       \<bar>weight (materials (projr (fst (calculateCounterweight default_dims 780 79 0 default_store))) ! 0)
         - 1942 / 10\<bar> \<le> 1 \<and>
       \<bar>volume (materials (projr (fst (calculateCounterweight default_dims 780 79 0 default_store))) ! 1)
         - 271 / 10000\<bar> \<le> 1 / 1000 \<and>
       \<bar>weight (materials (projr (fst (calculateCounterweight default_dims 780 79 0 default_store))) ! 1)
         - 2127 / 10\<bar> \<le> 1)"
  by (simp add: run_default)

text \<open>
  C5, amended. For width 600, depth 100, height 1800 (total volume 0.108), materials
  Beton (density 2400, priority 1) and Ocel (density 7850, priority 2), target weight
  780 and frame weight 79 (net 701), the result is feasible with Beton first, at volume
  367/13625 (about 0.026936) and weight 35232/545 (about 64.646 kg), and Ocel second, at
  volume 2209/27250 (about 0.081064) and weight 346813/545 (about 636.354 kg).
\<close>

theorem default_scenario:
  "volume_of default_dims = 108 / 1000 \<and>
   fst (calculateCounterweight default_dims 780 79 0 default_store) =
     Inr \<lparr>totalVolume = 108 / 1000, netTargetWeight = 701,
          materials =
            [\<lparr>material = beton, volume = 367 / 13625, weight = 35232 / 545,
              percentage = Fin (73400 / 2943)\<rparr>,
             \<lparr>material = ocel, volume = 2209 / 27250, weight = 346813 / 545,
              percentage = Fin (220900 / 2943)\<rparr>],
          isFeasible = True, message = PairMessage ''Beton'' ''Ocel''\<rparr> \<and>
   \<bar>367 / 13625 - 26936 / 1000000 :: real\<bar> \<le> 1 / 1000000 \<and>
   \<bar>35232 / 545 - 64646 / 1000 :: real\<bar> \<le> 1 / 1000 \<and>
   \<bar>2209 / 27250 - 81064 / 1000000 :: real\<bar> \<le> 1 / 1000000 \<and>
   \<bar>346813 / 545 - 636354 / 1000 :: real\<bar> \<le> 1 / 1000"
proof -
  have "volume_of default_dims = 108 / 1000"
    by (simp add: volume_of_def default_dims_def)
  then show ?thesis by (simp add: run_default)
qed


text \<open>
  C6. A pair of neighbours with equal densities is skipped by the first loop: from such
  an index the loop continues as from the next one; and whenever the result has two
  allocation entries, the densities of their two materials differ.
\<close>

theorem equal_density_pair_skipped:
  "(i + 1 < length xs \<and> density (xs ! i) = density (xs ! (i + 1)) \<longrightarrow>
      pair_loop v n xs i = pair_loop v n xs (i + 1)) \<and>
   (fst (calculateCounterweight d t f mref s) = Inr r \<and> materials r = [a1, a2] \<longrightarrow>
      density (material a1) \<noteq> density (material a2))"
proof (intro conjI impI)
  assume "i + 1 < length xs \<and> density (xs ! i) = density (xs ! (i + 1))"
  then show "pair_loop v n xs i = pair_loop v n xs (i + 1)"
    by (simp add: pair_loop_step pair_accepted_def)
next
  let ?xs = "sort_key priority (arrays s mref)"
  assume a: "fst (calculateCounterweight d t f mref s) = Inr r \<and> materials r = [a1, a2]"
  from a have run: "fst (calculateCounterweight d t f mref s) = Inr r" by simp
  from calc_result_shape [OF run] a have feas: "isFeasible r" by simp
  from calc_feasible_cases [OF run feas]
  consider
    (pair) j where "pair_accepted (volume_of d) (t - f) (?xs ! j) (?xs ! (j + 1))"
      "r = pair_answer (volume_of d) (t - f) (?xs ! j) (?xs ! (j + 1))"
  | (single) m where "r = single_answer (volume_of d) (t - f) m"
    by blast
  then show "density (material a1) \<noteq> density (material a2)"
  proof cases
    case pair
    from pair(2) have "map material (materials r) = [?xs ! j, ?xs ! (j + 1)]"
      by (simp add: pair_answer_fields)
    moreover from a have "map material (materials r) = [material a1, material a2]"
      by simp
    ultimately have "material a1 = ?xs ! j" "material a2 = ?xs ! (j + 1)"
      by simp_all
    with pair(1) show ?thesis by (simp add: pair_accepted_def)
  next
    case single
    with a show ?thesis by (simp add: single_answer_def)
  qed
qed

theorem equal_density_pair_skipped_witness:
  "(0 + 1 < length [mat_x, mat_y, mat_c] \<and>
    density ([mat_x, mat_y, mat_c] ! 0) = density ([mat_x, mat_y, mat_c] ! (0 + 1)) \<and>
    pair_loop 1 2500 [mat_x, mat_y, mat_c] 0 = pair_loop 1 2500 [mat_x, mat_y, mat_c] (0 + 1)) \<and>
   (map material
      (materials (projr (fst (calculateCounterweight cube_dims 2500 0 0 twin_store))))
      = [mat_y, mat_c] \<and>
    density mat_y \<noteq> density mat_c)"
proof -
  let ?r = "projr (fst (calculateCounterweight cube_dims 2500 0 0 twin_store))"
  have eq: "0 + 1 < length [mat_x, mat_y, mat_c] \<and>
      density ([mat_x, mat_y, mat_c] ! 0) = density ([mat_x, mat_y, mat_c] ! (0 + 1))"
    by (simp add: mat_x_def mat_y_def)
  have run: "fst (calculateCounterweight cube_dims 2500 0 0 twin_store) = Inr ?r \<and>
      materials ?r = [materials ?r ! 0, materials ?r ! 1]"
    by (simp add: run_twin)
  from equal_density_pair_skipped
    [of 0 "[mat_x, mat_y, mat_c]" 1 2500 cube_dims 2500 0 0 twin_store ?r
      "materials ?r ! 0" "materials ?r ! 1"]
    eq run
  show ?thesis by (simp add: run_twin)
qed


text \<open>
  C7. Once the loops are reached (the net weight is positive), if the pair at index
  \<open>i\<close> of the materials sorted by priority passes the test and no pair at a smaller
  index does, the result is the one built from that pair, whatever follows it in the
  list: feasible, with the entry of the first material of the pair before the entry of
  the second, the first being of lower or equal priority number.
\<close>

theorem first_accepted_pair_wins:
  assumes "0 < t - f"
    and "xs = sort_key priority (arrays s mref)"
    and "i + 1 < length xs"
    and "pair_accepted (volume_of d) (t - f) (xs ! i) (xs ! (i + 1))"
    and "\<forall>j<i. \<not> pair_accepted (volume_of d) (t - f) (xs ! j) (xs ! (j + 1))"
  shows "fst (calculateCounterweight d t f mref s) =
           Inr (pair_answer (volume_of d) (t - f) (xs ! i) (xs ! (i + 1))) \<and>
         map material (materials (pair_answer (volume_of d) (t - f) (xs ! i) (xs ! (i + 1))))
           = [xs ! i, xs ! (i + 1)] \<and>
         priority (xs ! i) \<le> priority (xs ! (i + 1))"
proof -
  have "pair_loop (volume_of d) (t - f) xs 0 =
          Some (Inr (pair_answer (volume_of d) (t - f) (xs ! i) (xs ! (i + 1))))"
    using assms(3,4,5) by (intro pair_loop_first) simp_all
  with assms(1,2) have "fst (calculateCounterweight d t f mref s) =
      Inr (pair_answer (volume_of d) (t - f) (xs ! i) (xs ! (i + 1)))"
    by (simp add: calc_search)
  moreover have "priority (xs ! i) \<le> priority (xs ! (i + 1))"
    using assms(3) unfolding assms(2) by (rule sorted_by_priority)
  ultimately show ?thesis by (simp add: pair_answer_fields)
qed

theorem first_accepted_pair_wins_witness:
  "(0 :: real) < 3000 - 0 \<and>
   [mat_a, mat_b, mat_c] = sort_key priority (arrays three_store 0) \<and>
   1 + 1 < length [mat_a, mat_b, mat_c] \<and>
   pair_accepted (volume_of cube_dims) (3000 - 0) mat_b mat_c \<and>
   \<not> pair_accepted (volume_of cube_dims) (3000 - 0) mat_a mat_b \<and>
   fst (calculateCounterweight cube_dims 3000 0 0 three_store) =
     Inr (pair_answer (volume_of cube_dims) (3000 - 0) mat_b mat_c) \<and>
   map material (materials (pair_answer (volume_of cube_dims) (3000 - 0) mat_b mat_c))
     = [mat_b, mat_c] \<and>
   priority mat_b \<le> priority mat_c"
proof -
  let ?xs = "[mat_a, mat_b, mat_c]"
  have vol: "volume_of cube_dims = 1" by (simp add: volume_of_def cube_dims_def)
  have pos: "(0 :: real) < 3000 - 0" by simp
  have xs: "?xs = sort_key priority (arrays three_store 0)" by (simp add: sorted_three)
  have len: "1 + 1 < length ?xs" by simp
  have acc: "pair_accepted (volume_of cube_dims) (3000 - 0) (?xs ! 1) (?xs ! (1 + 1))"
    by (simp add: vol pair_accepted_def pair_v1_def mat_b_def mat_c_def)
  have rej: "\<not> pair_accepted (volume_of cube_dims) (3000 - 0) mat_a mat_b"
    by (simp add: vol pair_accepted_def pair_v1_def mat_a_def mat_b_def)
  then have before:
    "\<forall>j<1. \<not> pair_accepted (volume_of cube_dims) (3000 - 0) (?xs ! j) (?xs ! (j + 1))"
    by simp
  from first_accepted_pair_wins [OF pos xs len acc before] pos len acc rej
  show ?thesis by (simp add: sorted_three)
qed

text \<open>
  C8, as stated, fails. With 200000 materials of density 1000, a volume of 1 cubic metre
  and a net weight of 3000 kg, neither loop returns and the diagnosis spreads 200000
  densities into one call, more than the engine accepts: the function throws a
  \<open>RangeError\<close>.
\<close>

theorem long_materials_list_throws:
  "length (arrays long_store 0) = 200000 \<and> max_args long_store = 130000 \<and>
   fst (calculateCounterweight cube_dims 3000 0 0 long_store) = Inl RangeError"
  by (simp add: run_long) (simp add: long_store_def long_list_length)

text \<open>
  C8, amended. For every input whose materials array has no more elements than the
  engine accepts as arguments of a call, the function returns a result record and
  throws nothing; a returned record is feasible exactly when it has allocation entries.
  With an empty materials array and a positive net weight the final diagnosis is
  reached and returns the infeasible record. Whatever the input, the function never
  reads a property of an undefined element: if it throws, it is the diagnosis, after
  both loops ended without returning, spreading a longer array.
\<close>

theorem throws_only_beyond_argument_limit:
  "(length (arrays s mref) \<le> max_args s \<longrightarrow>
      (\<exists>r. fst (calculateCounterweight d t f mref s) = Inr r \<and>
           (isFeasible r \<longleftrightarrow> materials r \<noteq> []))) \<and>
   (arrays s mref = [] \<and> 0 < t - f \<longrightarrow>
      fst (calculateCounterweight d t f mref s)
        = diagnose (max_args s) (volume_of d) (t - f) [] \<and>
      (\<exists>r. diagnose (max_args s) (volume_of d) (t - f) [] = Inr r \<and>
           \<not> isFeasible r \<and> materials r = [])) \<and>
   (fst (calculateCounterweight d t f mref s) = Inl e \<longrightarrow>
      e = RangeError \<and> max_args s < length (arrays s mref) \<and> 0 < t - f \<and>
      pair_loop (volume_of d) (t - f) (sort_key priority (arrays s mref)) 0 = None \<and>
      single_loop (volume_of d) (t - f) (sort_key priority (arrays s mref)) = None)"
proof (intro conjI impI)
  assume short: "length (arrays s mref) \<le> max_args s"
  from calc_total [OF this] obtain r where
    run: "fst (calculateCounterweight d t f mref s) = Inr r" by blast
  from run calc_result_shape [OF run]
  show "\<exists>r. fst (calculateCounterweight d t f mref s) = Inr r \<and>
        (isFeasible r \<longleftrightarrow> materials r \<noteq> [])"
    by blast
next
  assume a: "arrays s mref = [] \<and> 0 < t - f"
  then have "arrays (array_sort (next_addr s) (snd (array_copy mref s))) mref = []"
    using diagnosed_length [of s mref] by simp
  with a show "fst (calculateCounterweight d t f mref s)
      = diagnose (max_args s) (volume_of d) (t - f) []"
    by (simp add: calc_search pair_loop_end)
next
  from diagnose_short [of "[]" "max_args s" "volume_of d" "t - f"]
  obtain r where r: "diagnose (max_args s) (volume_of d) (t - f) [] = Inr r" by auto
  with diagnose_Inr [OF r]
  show "\<exists>r. diagnose (max_args s) (volume_of d) (t - f) [] = Inr r \<and>
        \<not> isFeasible r \<and> materials r = []"
    by blast
next
  assume "fst (calculateCounterweight d t f mref s) = Inl e"
  from calc_error [OF this]
  show "e = RangeError" "max_args s < length (arrays s mref)" "0 < t - f"
    "pair_loop (volume_of d) (t - f) (sort_key priority (arrays s mref)) 0 = None"
    "single_loop (volume_of d) (t - f) (sort_key priority (arrays s mref)) = None"
    by simp_all
qed

theorem throws_only_beyond_argument_limit_witness:
  "length (arrays empty_store 0) \<le> max_args empty_store \<and>
   (arrays empty_store 0 = [] \<and> (0 :: real) < 3000 - 0) \<and>
   fst (calculateCounterweight cube_dims 3000 0 0 empty_store) =
     Inr \<lparr>totalVolume = 1, netTargetWeight = 3000, materials = [], isFeasible = False,
          message = FailMessage (Some (3000, PosInf)) (Some (3000, NegInf))\<rparr> \<and>
   max_args long_store < length (arrays long_store 0) \<and>
   fst (calculateCounterweight cube_dims 3000 0 0 long_store) = Inl RangeError"
proof -
  have short: "length (arrays empty_store 0) \<le> max_args empty_store"
    by (simp add: empty_store_def)
  have h: "arrays empty_store 0 = [] \<and> (0 :: real) < 3000 - 0"
    by (simp add: empty_store_def)
  have diag: "diagnose (max_args empty_store) (volume_of cube_dims) (3000 - 0) [] =
     Inr \<lparr>totalVolume = 1, netTargetWeight = 3000, materials = [], isFeasible = False,
          message = FailMessage (Some (3000, PosInf)) (Some (3000, NegInf))\<rparr>"
    by (simp add: diagnose_def spread_call_def volume_of_def cube_dims_def js_gt_def)
  note main = throws_only_beyond_argument_limit
  from main [of empty_store 0 cube_dims 3000 0] h diag
  have empty: "fst (calculateCounterweight cube_dims 3000 0 0 empty_store) =
     Inr \<lparr>totalVolume = 1, netTargetWeight = 3000, materials = [], isFeasible = False,
          message = FailMessage (Some (3000, PosInf)) (Some (3000, NegInf))\<rparr>"
    by simp
  from main [of long_store 0 cube_dims 3000 0 RangeError] run_long
  have long: "max_args long_store < length (arrays long_store 0)" by (simp only: simp_thms)
  from short h empty long run_long show ?thesis by blast
qed

text \<open>
  C9. The array passed as materials holds the same elements in the same order after the
  call, as does every array that existed before the call; when the loops are reached,
  the sorted elements are in a new array at the first free address. The result record
  holds its allocation entries by value and no address of the store.
\<close>

theorem materials_list_unchanged:
  assumes "mref < next_addr s"
  shows "arrays (snd (calculateCounterweight d t f mref s)) mref = arrays s mref \<and>
    (\<forall>a. a < next_addr s \<longrightarrow>
       arrays (snd (calculateCounterweight d t f mref s)) a = arrays s a) \<and>
    (0 < t - f \<longrightarrow>
       arrays (snd (calculateCounterweight d t f mref s)) (next_addr s)
         = sort_key priority (arrays s mref) \<and>
       next_addr (snd (calculateCounterweight d t f mref s)) = Suc (next_addr s))"
  using assms by (simp add: calc_store array_sort_def array_copy_def)

theorem materials_list_unchanged_witness:
  "0 < next_addr three_store \<and>
   arrays three_store 0 = [mat_c, mat_a, mat_b] \<and>
   arrays (snd (calculateCounterweight cube_dims 3000 0 0 three_store)) 0
     = [mat_c, mat_a, mat_b] \<and>
   arrays (snd (calculateCounterweight cube_dims 3000 0 0 three_store)) (next_addr three_store)
     = [mat_a, mat_b, mat_c]"
proof -
  have h: "0 < next_addr three_store" by (simp add: three_store_def)
  have a: "arrays three_store 0 = [mat_c, mat_a, mat_b]" by (simp add: three_store_def)
  note kept = materials_list_unchanged [OF h, of cube_dims 3000 0]
  from kept have "arrays (snd (calculateCounterweight cube_dims 3000 0 0 three_store)) 0
      = arrays three_store 0"
    by blast
  then have same: "arrays (snd (calculateCounterweight cube_dims 3000 0 0 three_store)) 0
      = [mat_c, mat_a, mat_b]"
    by (simp only: a)
  from kept have "arrays (snd (calculateCounterweight cube_dims 3000 0 0 three_store))
      (next_addr three_store) = sort_key priority (arrays three_store 0)"
    by simp
  then have copy: "arrays (snd (calculateCounterweight cube_dims 3000 0 0 three_store))
      (next_addr three_store) = [mat_a, mat_b, mat_c]"
    by (simp only: sorted_three)
  from h a same copy show ?thesis by blast
qed

text \<open>
  C10. With three materials of densities 1000, 2000 and 4000 and a volume of 1 cubic
  metre, a net weight of 1000 kg is met by 100% of the first material: the second loop
  would return that single entry, but the result has the two entries of the first pair,
  the second with volume 0, weight 0 and percentage 0.
\<close>

theorem pair_preempts_single_material:
  "2 \<le> length (arrays three_store 0) \<and>
   density mat_a \<noteq> density mat_b \<and>
   volume_of cube_dims * density mat_a = 1000 - 0 \<and>
   fst (calculateCounterweight cube_dims 1000 0 0 three_store) =
     Inr \<lparr>totalVolume = 1, netTargetWeight = 1000,
          materials =
            [\<lparr>material = mat_a, volume = 1, weight = 1000, percentage = Fin 100\<rparr>,
             \<lparr>material = mat_b, volume = 0, weight = 0, percentage = Fin 0\<rparr>],
          isFeasible = True, message = PairMessage ''A'' ''B''\<rparr> \<and>
   single_loop (volume_of cube_dims) (1000 - 0) (sort_key priority (arrays three_store 0))
     = Some (single_answer 1 1000 mat_a)"
proof -
  have vol: "volume_of cube_dims = 1" by (simp add: volume_of_def cube_dims_def)
  have "single_loop 1 (1000 - 0) [mat_a, mat_b, mat_c] = Some (single_answer 1 1000 mat_a)"
    by (simp add: single_answer_def mat_a_def)
  moreover have "2 \<le> length (arrays three_store 0)" by (simp add: three_store_def)
  moreover have "density mat_a \<noteq> density mat_b" "density mat_a = 1000"
    by (simp_all add: mat_a_def mat_b_def)
  ultimately show ?thesis by (simp add: vol sorted_three run_three_1000)
qed

end
